theory Spec2Isabelle
  imports Complex_Main
begin

section \<open>Modal analysis of a two-degree-of-freedom beam (notebook \<open>examples/vibs1.ipynb\<close>)\<close>

text \<open>
  The notebook computes with Python scalars and numpy \<open>float64\<close>/\<open>complex128\<close> arrays.
  Finite floating-point values are modelled by \<^typ>\<open>real\<close> and \<^typ>\<open>complex\<close> numbers with
  exact arithmetic; rounding is not modelled. The points where the program leaves the
  finite numbers are written out: a Python scalar division by zero raises, a numpy
  division by zero or a square root of a negative number yields a non-finite value.
\<close>

subsection \<open>Arrays\<close>

type_synonym matrix = "real list list"

text \<open>\<open>np.eye(n)\<close>\<close>

definition np_eye :: "nat \<Rightarrow> matrix" where
  "np_eye n = map (\<lambda>i. map (\<lambda>j. if i = j then 1 else 0) [0..<n]) [0..<n]"

text \<open>\<open>c * A\<close> for a scalar \<open>c\<close>\<close>

definition np_scale :: "real \<Rightarrow> matrix \<Rightarrow> matrix" where
  "np_scale c A = map (map (\<lambda>x. c * x)) A"

text \<open>\<open>A * r\<close> for a matrix \<open>A\<close> and a one-dimensional array \<open>r\<close>: the row \<open>r\<close> is broadcast
  over the rows of \<open>A\<close> and multiplied entry by entry.\<close>

definition np_mul_row :: "matrix \<Rightarrow> real list \<Rightarrow> matrix" where
  "np_mul_row A r = map (\<lambda>row. map2 (\<lambda>x y. x * y) row r) A"

text \<open>\<open>A + B\<close> for two matrices of the same shape\<close>

definition np_add :: "matrix \<Rightarrow> matrix \<Rightarrow> matrix" where
  "np_add A B = map2 (map2 (\<lambda>x y. x + y)) A B"

subsection \<open>Build Beam\<close>

datatype py_error = ZeroDivisionError

text \<open>
  The cell "Build Beam", as a function of the constants it starts from (\<open>b\<close>, \<open>h\<close>, \<open>E\<close>,
  \<open>l\<close>, \<open>grav\<close>); the bound names are the notebook's variables, in the notebook's order.
  The density factor \<open>.29\<close> and the spring factor \<open>300\<close> are literals of the cell. The two
  divisions by a variable are Python scalar divisions, which raise on a zero divisor.
  The result is the pair \<open>(M, K)\<close>.
\<close>

definition build_beam :: "real \<Rightarrow> real \<Rightarrow> real \<Rightarrow> real \<Rightarrow> real \<Rightarrow> py_error + (matrix \<times> matrix)" where
  "build_beam b h E l grav =
    (let I = b * (h ^ 3) / 12;
         mbar = b * h * (29 / 100)
     in if grav = 0 then Inl ZeroDivisionError
        else
          let mbar = mbar / grav
          in if l ^ 3 = 0 then Inl ZeroDivisionError
             else
               let k1 = E * I / (l ^ 3) * 300;
                   k2 = E * I / l ^ 3 * 300;
                   M = np_scale (mbar * l / 2) (np_eye 2);
                   k = np_scale (E * I / (l ^ 3)) [[12, - 12], [- 12, 12]];
                   K = np_add k (np_mul_row (np_eye 2) [k1, k2])
               in Inr (M, K))"

subsection \<open>Non-finite values\<close>

text \<open>
  From the eigenvalue cell on the notebook computes with numpy arrays, where nothing
  raises: the square root of a negative number is \<open>nan\<close>, a division by zero is \<open>inf\<close> or
  \<open>nan\<close>, and every later operation of the notebook on such a value gives a value that
  is not a finite number again (\<open>nan\<close> stays \<open>nan\<close>, and no divisor of the notebook is
  infinite). A numpy value is therefore an option: \<open>Some x\<close> is the finite number \<open>x\<close>,
  \<open>None\<close> stands for a value that is not a finite number.
\<close>

type_synonym rfloat = "real option"
type_synonym cfloat = "complex option"

definition lift2 :: "('a \<Rightarrow> 'b \<Rightarrow> 'c) \<Rightarrow> 'a option \<Rightarrow> 'b option \<Rightarrow> 'c option" where
  "lift2 f x y = (case x of None \<Rightarrow> None | Some a \<Rightarrow> (case y of None \<Rightarrow> None | Some b \<Rightarrow> Some (f a b)))"

text \<open>\<open>np.sqrt\<close> on a real array entry\<close>

definition np_sqrt :: "rfloat \<Rightarrow> rfloat" where
  "np_sqrt x = (case x of None \<Rightarrow> None | Some a \<Rightarrow> if a < 0 then None else Some (sqrt a))"

text \<open>\<open>+\<close>, \<open>-\<close>, \<open>*\<close>, \<open>/\<close> and \<open>np.conj\<close> on complex array entries\<close>

definition c_add :: "cfloat \<Rightarrow> cfloat \<Rightarrow> cfloat" where
  "c_add = lift2 (\<lambda>a b. a + b)"

definition c_sub :: "cfloat \<Rightarrow> cfloat \<Rightarrow> cfloat" where
  "c_sub = lift2 (\<lambda>a b. a - b)"

definition c_mul :: "cfloat \<Rightarrow> cfloat \<Rightarrow> cfloat" where
  "c_mul = lift2 (\<lambda>a b. a * b)"

definition c_div :: "cfloat \<Rightarrow> cfloat \<Rightarrow> cfloat" where
  "c_div x y = (case x of None \<Rightarrow> None
                | Some a \<Rightarrow> (case y of None \<Rightarrow> None
                            | Some b \<Rightarrow> if b = 0 then None else Some (a / b)))"

definition c_conj :: "cfloat \<Rightarrow> cfloat" where
  "c_conj = map_option cnj"

subsection \<open>Eigenvalue Decomposition\<close>

text \<open>
  The cell starts with \<open>d, v = la.eigh(K, M)\<close>, a call into scipy; \<open>d\<close> (a list of finite
  reals) and \<open>v\<close> (a matrix) are the inputs of what follows.
\<close>

text \<open>\<open>w = np.sqrt(d)\<close>\<close>

definition w_undamped :: "real list \<Rightarrow> rfloat list" where
  "w_undamped d = map (\<lambda>x. np_sqrt (Some x)) d"

text \<open>\<open>np.dot(A, B)\<close> and \<open>A @ B\<close> for two matrices, \<open>A.T\<close> is \<^const>\<open>transpose\<close>\<close>

definition np_dot :: "matrix \<Rightarrow> matrix \<Rightarrow> matrix" where
  "np_dot A B = map (\<lambda>row. map (\<lambda>col. sum_list (map2 (\<lambda>x y. x * y) row col)) (transpose B)) A"

text \<open>\<open>Mr = np.dot(np.dot(v.T,M), v)\<close> and \<open>Kr = v.T@K@v\<close>\<close>

definition Mr :: "matrix \<Rightarrow> matrix \<Rightarrow> matrix" where
  "Mr v M = np_dot (np_dot (transpose v) M) v"

definition Kr :: "matrix \<Rightarrow> matrix \<Rightarrow> matrix" where
  "Kr v K = np_dot (np_dot (transpose v) K) v"

text \<open>\<open>dampr = .05\<close>\<close>

definition dampr :: real where
  "dampr = 5 / 100"

text \<open>\<open>dampf = -dampr*w\<close>, with the damping ratio as a parameter\<close>

definition dampf :: "real \<Rightarrow> rfloat list \<Rightarrow> rfloat list" where
  "dampf z ws = map (map_option (\<lambda>x. (- z) * x)) ws"

text \<open>\<open>wn = np.sqrt(w**2 + dampf**2)\<close>\<close>

definition wn :: "rfloat list \<Rightarrow> rfloat list \<Rightarrow> rfloat list" where
  "wn ws dfs = map2 (\<lambda>x y. np_sqrt (lift2 (\<lambda>a b. a + b) (map_option (\<lambda>a. a ^ 2) x) (map_option (\<lambda>b. b ^ 2) y))) ws dfs"

text \<open>\<open>roots = dampf + 1j*wn\<close>\<close>

definition roots :: "rfloat list \<Rightarrow> rfloat list \<Rightarrow> cfloat list" where
  "roots dfs wns = map2 (\<lambda>x y. c_add (map_option complex_of_real x) (map_option (\<lambda>b. \<i> * complex_of_real b) y)) dfs wns"

subsection \<open>Transfer Function\<close>

text \<open>\<open>v.shape[1]\<close>, the number of columns\<close>

definition shape1 :: "matrix \<Rightarrow> nat" where
  "shape1 A = (case A of [] \<Rightarrow> 0 | row # _ \<Rightarrow> length row)"

text \<open>\<open>np.diag(A)\<close> of a matrix: its main diagonal\<close>

definition np_diag :: "matrix \<Rightarrow> real list" where
  "np_diag A = map (\<lambda>i. A ! i ! i) [0..<min (length A) (shape1 A)]"

text \<open>\<open>v[:,mode]\<close>, a column\<close>

definition column :: "matrix \<Rightarrow> nat \<Rightarrow> real list" where
  "column A j = map (\<lambda>row. row ! j) A"

text \<open>\<open>np.outer(x, y)\<close>\<close>

definition np_outer :: "real list \<Rightarrow> real list \<Rightarrow> matrix" where
  "np_outer x y = map (\<lambda>a. map (\<lambda>b. a * b) y) x"

text \<open>\<open>qr = 1/(2j*np.diag(Mr)*wn)\<close>, entry by entry, for a diagonal and an array \<open>wn\<close> of the
  same length; the first argument is the matrix \<open>Mr\<close>\<close>

definition qr :: "matrix \<Rightarrow> rfloat list \<Rightarrow> cfloat list" where
  "qr mr wns = map2 (\<lambda>m x. c_div (Some 1) (c_mul (Some (2 * \<i> * complex_of_real m)) (map_option complex_of_real x)))
                 (np_diag mr) wns"

text \<open>\<open>A = [qr[mode]*np.outer(v[:,mode],v[:,mode]) for mode in np.arange(ne)]\<close> with
  \<open>ne = v.shape[1]\<close>; the first argument is the array \<open>qr\<close>\<close>

definition A_residues :: "cfloat list \<Rightarrow> matrix \<Rightarrow> cfloat list list list" where
  "A_residues q v =
     map (\<lambda>mode. map (map (\<lambda>x. c_mul (q ! mode) (Some (complex_of_real x))))
                      (np_outer (column v mode) (column v mode)))
         [0..<shape1 v]"

text \<open>
  \<open>frf_build_sdof(a, r, f)\<close>: \<open>h = a/(1j*f-r) + np.conj(a)/(1j*f-np.conj(r))\<close> for a scalar
  residue \<open>a\<close>, a scalar pole \<open>r\<close> and an array \<open>f\<close> of finite real frequencies; the
  expression is evaluated for every entry of \<open>f\<close>.
\<close>

definition frf_build_sdof :: "cfloat \<Rightarrow> cfloat \<Rightarrow> real list \<Rightarrow> cfloat list" where
  "frf_build_sdof a r f =
     map (\<lambda>fk. c_add (c_div a (c_sub (Some (\<i> * complex_of_real fk)) r))
                      (c_div (c_conj a) (c_sub (Some (\<i> * complex_of_real fk)) (c_conj r)))) f"

text \<open>The call of the plot cell: \<open>h = frf_build_sdof(A[mode][iout][iin],roots[mode],freqs)\<close>\<close>

definition frf_h :: "cfloat list list list \<Rightarrow> cfloat list \<Rightarrow> real list \<Rightarrow> nat \<Rightarrow> nat \<Rightarrow> nat \<Rightarrow> cfloat list" where
  "frf_h A rts freqs mode iout iin = frf_build_sdof (A ! mode ! iout ! iin) (rts ! mode) freqs"

text \<open>
  Modelled from the spec: the multi-mode FRF. The notebook never forms it (its loop over
  the modes has the body \<open>pass\<close>, and the array \<open>HH\<close> stays zero); this definition follows
  the formula of the spec's FRFSynthesizer contract,
  \<open>H(f\<^sub>k)\<close> is the sum over the modes of
  \<open>A[mode][iout,iin]/(i\<cdot>f\<^sub>k - pole[mode]) + conj(A[mode][iout,iin])/(i\<cdot>f\<^sub>k - conj(pole[mode]))\<close>,
  with one mode per pole and the empty sum \<open>0\<close>.
\<close>

definition frf_multi_mode :: "cfloat list list list \<Rightarrow> cfloat list \<Rightarrow> real list \<Rightarrow> nat \<Rightarrow> nat \<Rightarrow> cfloat list" where
  "frf_multi_mode A pole f iout iin =
     map (\<lambda>fk. foldr (\<lambda>mode acc.
                  c_add (c_add (c_div (A ! mode ! iout ! iin) (c_sub (Some (\<i> * complex_of_real fk)) (pole ! mode)))
                               (c_div (c_conj (A ! mode ! iout ! iin))
                                      (c_sub (Some (\<i> * complex_of_real fk)) (c_conj (pole ! mode)))))
                        acc)
                [0..<length pole] (Some 0)) f"

subsection \<open>Decibels\<close>

text \<open>
  \<open>mag2db\<close> is where \<open>-inf\<close> matters, so its real values keep the non-finite values of
  numpy apart.
\<close>

datatype npfloat = Fin real | PInf | NInf | NaN

text \<open>\<open>np.log10\<close>: \<open>-inf\<close> at zero, \<open>nan\<close> on a negative number\<close>

definition np_log10 :: "npfloat \<Rightarrow> npfloat" where
  "np_log10 x = (case x of
       Fin a \<Rightarrow> if 0 < a then Fin (log 10 a) else if a = 0 then NInf else NaN
     | PInf \<Rightarrow> PInf
     | NInf \<Rightarrow> NaN
     | NaN \<Rightarrow> NaN)"

text \<open>\<open>c * x\<close> for a finite scalar \<open>c\<close>\<close>

definition npf_times :: "real \<Rightarrow> npfloat \<Rightarrow> npfloat" where
  "npf_times c x = (case x of
       Fin a \<Rightarrow> Fin (c * a)
     | PInf \<Rightarrow> if 0 < c then PInf else if c < 0 then NInf else NaN
     | NInf \<Rightarrow> if 0 < c then NInf else if c < 0 then PInf else NaN
     | NaN \<Rightarrow> NaN)"

text \<open>\<open>mag2db(x)\<close>: \<open>return 20*np.log10(x)\<close>, on an array\<close>

definition mag2db :: "npfloat list \<Rightarrow> npfloat list" where
  "mag2db x = map (\<lambda>e. npf_times 20 (np_log10 e)) x"

text \<open>\<open>np.abs\<close> on an array of finite complex numbers, as in \<open>mag2db(np.abs(h))\<close>\<close>

definition np_abs :: "complex list \<Rightarrow> npfloat list" where
  "np_abs h = map (\<lambda>z. Fin (cmod z)) h"

subsection \<open>The beam of the notebook\<close>

lemma np_eye_2: "np_eye 2 = [[1, 0], [0, 1]]"
proof -
  have "[0..<2] = [0, Suc 0]"
    by (simp add: upt_rec)
  then show ?thesis
    by (simp add: np_eye_def)
qed

text \<open>
  Claim C3. For \<open>b = 1\<close>, \<open>h = 12\<close>, \<open>E = 29e6\<close>, \<open>l = 1200\<close>, \<open>grav = 386.4\<close> and density factor
  \<open>0.29\<close> the cell yields a diagonal mass matrix with two equal entries \<open>870/161\<close>, which is
  within \<open>1e-2\<close> of \<open>5.404\<close>, and the stiffness matrix \<open>[[754, -29], [-29, 754]]\<close>; the beam's
  own stiffness term \<open>29\<close> is \<open>E\<cdot>I/l\<^sup>3\<cdot>12\<close> with \<open>I = b\<cdot>h\<^sup>3/12\<close>.
\<close>

theorem build_beam_example:
  "build_beam 1 12 29000000 1200 (3864 / 10)
     = Inr ([[870 / 161, 0], [0, 870 / 161]], [[754, - 29], [- 29, 754]])
   \<and> \<bar>870 / 161 - 5404 / 1000\<bar> \<le> (1 / 100 :: real)
   \<and> (29 :: real) = 29000000 * (1 * 12 ^ 3 / 12) / 1200 ^ 3 * 12"
  by (simp add: build_beam_def np_eye_2 np_scale_def np_add_def np_mul_row_def)

subsection \<open>Single-mode frequency response\<close>

lemma c_div_Some:
  "c_div (Some a) (Some b) = (if b = 0 then None else Some (a / b))"
  by (simp add: c_div_def)

lemma c_sub_Some: "c_sub (Some a) (Some b) = Some (a - b)"
  by (simp add: c_sub_def lift2_def)

lemma c_add_Some: "c_add (Some a) (Some b) = Some (a + b)"
  by (simp add: c_add_def lift2_def)

lemma c_add_None: "c_add None y = None" "c_add x None = None"
  by (simp_all add: c_add_def lift2_def split: option.splits)

lemma c_div_None: "c_div None y = None" "c_div x None = None"
  by (simp_all add: c_div_def split: option.splits)

lemma c_sub_None: "c_sub None y = None" "c_sub x None = None"
  by (simp_all add: c_sub_def lift2_def split: option.splits)

lemma c_conj_simps: "c_conj None = None" "c_conj (Some a) = Some (cnj a)"
  by (simp_all add: c_conj_def)

lemmas cfloat_simps =
  c_div_Some c_sub_Some c_add_Some c_add_None c_div_None c_sub_None c_conj_simps

text \<open>
  Claim C5. For a finite complex residue \<open>a\<close>, a finite complex pole \<open>r\<close> and a real sweep
  \<open>f\<close>, \<open>frf_build_sdof\<close> returns as many entries as \<open>f\<close> has, and the entry for \<open>f\<^sub>k\<close> is
  \<open>a/(i\<cdot>f\<^sub>k - r) + conj(a)/(i\<cdot>f\<^sub>k - conj(r))\<close>; where one of the two divisors is zero (the
  undamped singularity) the entry is not a finite number.
\<close>

theorem frf_build_sdof_entries:
  "length (frf_build_sdof (Some a) (Some r) f) = length f
   \<and> (\<forall>k. k < length f \<longrightarrow>
        frf_build_sdof (Some a) (Some r) f ! k =
          (if \<i> * complex_of_real (f ! k) - r = 0 \<or> \<i> * complex_of_real (f ! k) - cnj r = 0
           then None
           else Some (a / (\<i> * complex_of_real (f ! k) - r)
                      + cnj a / (\<i> * complex_of_real (f ! k) - cnj r))))"
  by (simp add: frf_build_sdof_def cfloat_simps)

theorem frf_build_sdof_entries_witness:
  "(1 :: nat) < length [0, 1 :: real]
   \<and> frf_build_sdof (Some 1) (Some (- 1)) [0, 1] ! 1 = Some (1 / (\<i> + 1) + 1 / (\<i> + 1))"
proof -
  have nz: "\<i> + 1 \<noteq> 0"
    by (simp add: complex_eq_iff)
  have "\<forall>k. k < length [0, 1 :: real] \<longrightarrow>
          frf_build_sdof (Some 1) (Some (- 1)) [0, 1] ! k =
            (if \<i> * complex_of_real ([0, 1] ! k) - (- 1) = 0
                \<or> \<i> * complex_of_real ([0, 1] ! k) - cnj (- 1) = 0
             then None
             else Some (1 / (\<i> * complex_of_real ([0, 1] ! k) - (- 1))
                        + cnj 1 / (\<i> * complex_of_real ([0, 1] ! k) - cnj (- 1))))"
    using frf_build_sdof_entries [of 1 "- 1" "[0, 1]"] by (rule conjunct2)
  then have "(1 :: nat) < length [0, 1 :: real] \<longrightarrow>
          frf_build_sdof (Some 1) (Some (- 1)) [0, 1] ! 1 =
            (if \<i> * complex_of_real ([0, 1] ! 1) - (- 1) = 0
                \<or> \<i> * complex_of_real ([0, 1] ! 1) - cnj (- 1) = 0
             then None
             else Some (1 / (\<i> * complex_of_real ([0, 1] ! 1) - (- 1))
                        + cnj 1 / (\<i> * complex_of_real ([0, 1] ! 1) - cnj (- 1))))"
    by (rule spec)
  with nz show ?thesis
    by simp
qed

text \<open>
  Claim C7. Conjugate symmetry: for every complex residue \<open>a\<close>, complex pole \<open>r\<close> and real
  sweep \<open>f\<close>, the response at the negated frequencies is the complex conjugate of the
  response, entry by entry (and an entry is not a finite number on one side exactly when
  it is not on the other).
\<close>

lemma frf_entry_conj:
  "c_add (c_div a (c_sub (Some (\<i> * complex_of_real (- x))) r))
         (c_div (c_conj a) (c_sub (Some (\<i> * complex_of_real (- x))) (c_conj r)))
   = c_conj (c_add (c_div a (c_sub (Some (\<i> * complex_of_real x)) r))
                   (c_div (c_conj a) (c_sub (Some (\<i> * complex_of_real x)) (c_conj r))))"
proof (cases a)
  case None
  then show ?thesis by (simp add: cfloat_simps)
next
  case (Some a')
  show ?thesis
  proof (cases r)
    case None
    then show ?thesis by (simp add: cfloat_simps)
  next
    case (Some r')
    have d1: "- (\<i> * complex_of_real x) - r' = cnj (\<i> * complex_of_real x - cnj r')"
      by simp
    have d2: "- (\<i> * complex_of_real x) - cnj r' = cnj (\<i> * complex_of_real x - r')"
      by simp
    have z1: "(- (\<i> * complex_of_real x) - r' = 0) = (\<i> * complex_of_real x - cnj r' = 0)"
      unfolding d1 by (simp only: complex_cnj_zero_iff)
    have z2: "(- (\<i> * complex_of_real x) - cnj r' = 0) = (\<i> * complex_of_real x - r' = 0)"
      unfolding d2 by (simp only: complex_cnj_zero_iff)
    have v1: "a' / (- (\<i> * complex_of_real x) - r') = cnj (cnj a' / (\<i> * complex_of_real x - cnj r'))"
      unfolding d1 by simp
    have v2: "cnj a' / (- (\<i> * complex_of_real x) - cnj r') = cnj (a' / (\<i> * complex_of_real x - r'))"
      unfolding d2 by simp
    show ?thesis
      using z1 z2 v1 v2 \<open>a = Some a'\<close> \<open>r = Some r'\<close>
      by (simp add: cfloat_simps add.commute)
  qed
qed

theorem frf_conjugate_symmetry:
  "frf_build_sdof (Some a) (Some r) (map (\<lambda>x. - x) f)
     = map c_conj (frf_build_sdof (Some a) (Some r) f)"
  by (simp only: frf_build_sdof_def list.map_comp comp_def frf_entry_conj)

subsection \<open>Natural frequencies, damping and poles\<close>

lemma np_sqrt_Some: "np_sqrt (Some x) = (if x < 0 then None else Some (sqrt x))"
  by (simp add: np_sqrt_def)

lemma lift2_Some: "lift2 f (Some a) (Some b) = Some (f a b)"
  by (simp add: lift2_def)

lemma modal_entries:
  assumes k: "k < length d" and nn: "0 \<le> d ! k"
  shows "w_undamped d ! k = Some (sqrt (d ! k))"
    and "dampf z (w_undamped d) ! k = Some (- z * sqrt (d ! k))"
    and "wn (w_undamped d) (dampf z (w_undamped d)) ! k
           = Some (sqrt ((sqrt (d ! k)) ^ 2 + (- z * sqrt (d ! k)) ^ 2))"
    and "roots (dampf z (w_undamped d)) (wn (w_undamped d) (dampf z (w_undamped d))) ! k
           = Some (complex_of_real (- z * sqrt (d ! k))
                   + \<i> * complex_of_real (sqrt ((sqrt (d ! k)) ^ 2 + (- z * sqrt (d ! k)) ^ 2)))"
proof -
  show w: "w_undamped d ! k = Some (sqrt (d ! k))"
    using k nn by (simp add: w_undamped_def np_sqrt_Some)
  have lw: "length (w_undamped d) = length d"
    by (simp add: w_undamped_def)
  show f: "dampf z (w_undamped d) ! k = Some (- z * sqrt (d ! k))"
    using k lw w by (simp add: dampf_def)
  have lf: "length (dampf z (w_undamped d)) = length d"
    by (simp add: dampf_def lw)
  have nonneg: "\<not> (sqrt (d ! k)) ^ 2 + (- z * sqrt (d ! k)) ^ 2 < 0"
    by (simp add: not_less)
  show n: "wn (w_undamped d) (dampf z (w_undamped d)) ! k
           = Some (sqrt ((sqrt (d ! k)) ^ 2 + (- z * sqrt (d ! k)) ^ 2))"
    using k lw lf w f nonneg by (simp add: wn_def lift2_Some np_sqrt_Some)
  have ln: "length (wn (w_undamped d) (dampf z (w_undamped d))) = length d"
    by (simp add: wn_def lw lf)
  show "roots (dampf z (w_undamped d)) (wn (w_undamped d) (dampf z (w_undamped d))) ! k
           = Some (complex_of_real (- z * sqrt (d ! k))
                   + \<i> * complex_of_real (sqrt ((sqrt (d ! k)) ^ 2 + (- z * sqrt (d ! k)) ^ 2)))"
    using k lf ln f n by (simp add: roots_def c_add_Some)
qed

text \<open>A square root lies within \<open>e\<close> of \<open>c\<close> when the squares of \<open>c - e\<close> and \<open>c + e\<close> enclose
  its argument.\<close>

lemma sqrt_near:
  assumes "0 \<le> c + e" "(c - e) ^ 2 < x" "0 \<le> c - e" "x < (c + e) ^ 2"
  shows "\<bar>sqrt x - c\<bar> < e"
proof -
  have "c - e < sqrt x" using assms(2) by (rule real_less_rsqrt)
  moreover have "sqrt x < c + e" using assms(1,4) by (rule real_less_lsqrt)
  ultimately show ?thesis by (simp add: abs_less_iff)
qed

lemma example_w1: "\<bar>sqrt (1341667 / 10000) - 11583 / 1000\<bar> < 1 / 1000"
  by (rule sqrt_near) (simp_all add: power2_eq_square)

lemma example_w2: "\<bar>sqrt (1449 / 10) - 12038 / 1000\<bar> < 1 / 1000"
  by (rule sqrt_near) (simp_all add: power2_eq_square)

lemma example_dampf1: "\<bar>- (5 / 100) * sqrt (1341667 / 10000) + 5791 / 10000\<bar> < 1 / 10000"
proof -
  have "\<bar>sqrt (1341667 / 10000) - 11583 / 1000\<bar> < 5 / 10000"
    by (rule sqrt_near) (simp_all add: power2_eq_square)
  then show ?thesis by linarith
qed

lemma example_dampf2: "\<bar>- (5 / 100) * sqrt (1449 / 10) + 6019 / 10000\<bar> < 1 / 10000"
proof -
  have "\<bar>sqrt (1449 / 10) - 120375 / 10000\<bar> < 5 / 10000"
    by (rule sqrt_near) (simp_all add: power2_eq_square)
  then show ?thesis by linarith
qed

lemma wn_radicand: "0 \<le> x \<Longrightarrow> (sqrt x) ^ 2 + (- (5 / 100) * sqrt x) ^ 2 = x * (10025 / 10000)"
  by (simp add: power_mult_distrib power2_eq_square algebra_simps)

lemma example_wn1:
  "\<bar>sqrt ((sqrt (1341667 / 10000)) ^ 2 + (- (5 / 100) * sqrt (1341667 / 10000)) ^ 2) - 11598 / 1000\<bar>
     < 1 / 1000"
proof -
  have "(sqrt (1341667 / 10000)) ^ 2 + (- (5 / 100) * sqrt (1341667 / 10000)) ^ 2
          = (1341667 / 10000) * (10025 / 10000 :: real)"
    by (rule wn_radicand) simp
  moreover have "\<bar>sqrt ((1341667 / 10000) * (10025 / 10000)) - 11598 / 1000\<bar> < 1 / 1000"
    by (rule sqrt_near) (simp_all add: power2_eq_square)
  ultimately show ?thesis by (simp only:)
qed

lemma example_wn2:
  "\<bar>sqrt ((sqrt (1449 / 10)) ^ 2 + (- (5 / 100) * sqrt (1449 / 10)) ^ 2) - 12053 / 1000\<bar> < 1 / 1000"
proof -
  have "(sqrt (1449 / 10)) ^ 2 + (- (5 / 100) * sqrt (1449 / 10)) ^ 2
          = (1449 / 10) * (10025 / 10000 :: real)"
    by (rule wn_radicand) simp
  moreover have "\<bar>sqrt ((1449 / 10) * (10025 / 10000)) - 12053 / 1000\<bar> < 1 / 1000"
    by (rule sqrt_near) (simp_all add: power2_eq_square)
  ultimately show ?thesis by (simp only:)
qed

lemma example_lists:
  "w_undamped [1341667 / 10000, 1449 / 10] = [Some (sqrt (1341667 / 10000)), Some (sqrt (1449 / 10))]"
  "dampf dampr [Some a, Some b] = [Some (- (5 / 100) * a), Some (- (5 / 100) * b)]"
  "wn [Some a, Some b] [Some c, Some e] = [Some (sqrt (a ^ 2 + c ^ 2)), Some (sqrt (b ^ 2 + e ^ 2))]"
  by (simp_all add: w_undamped_def np_sqrt_Some dampf_def dampr_def wn_def lift2_Some not_less)

text \<open>
  Claim C4. For eigenvalues \<open>d\<close> and a damping ratio \<open>z\<close>, at every non-negative entry
  \<open>d\<^sub>k\<close> the cell computes \<open>w = sqrt(d\<^sub>k)\<close>, \<open>dampf = -z\<cdot>w\<close>, \<open>wn = sqrt(w\<^sup>2 + dampf\<^sup>2)\<close> and
  the pole \<open>dampf + i\<cdot>wn\<close> (on a negative entry numpy's square root is \<open>nan\<close>). For
  \<open>d = [134.1667, 144.9]\<close> and the notebook's ratio \<open>0.05\<close> the values agree with
  \<open>w = [11.583, 12.038]\<close>, \<open>dampf = [-0.5791, -0.6019]\<close> and \<open>wn = [11.598, 12.053]\<close> to within
  one unit of the last digit given (\<open>1e-3\<close>, \<open>1e-4\<close> and \<open>1e-3\<close>).
\<close>

theorem modal_damping:
  "(\<forall>k. k < length d \<longrightarrow> 0 \<le> d ! k \<longrightarrow>
      w_undamped d ! k = Some (sqrt (d ! k))
    \<and> dampf z (w_undamped d) ! k = Some (- z * sqrt (d ! k))
    \<and> wn (w_undamped d) (dampf z (w_undamped d)) ! k
        = Some (sqrt ((sqrt (d ! k)) ^ 2 + (- z * sqrt (d ! k)) ^ 2))
    \<and> roots (dampf z (w_undamped d)) (wn (w_undamped d) (dampf z (w_undamped d))) ! k
        = Some (complex_of_real (- z * sqrt (d ! k))
                + \<i> * complex_of_real (sqrt ((sqrt (d ! k)) ^ 2 + (- z * sqrt (d ! k)) ^ 2))))
   \<and> (\<exists>w1 w2 f1 f2 n1 n2.
         w_undamped [1341667 / 10000, 1449 / 10] = [Some w1, Some w2]
       \<and> dampf dampr (w_undamped [1341667 / 10000, 1449 / 10]) = [Some f1, Some f2]
       \<and> wn (w_undamped [1341667 / 10000, 1449 / 10])
            (dampf dampr (w_undamped [1341667 / 10000, 1449 / 10])) = [Some n1, Some n2]
       \<and> \<bar>w1 - 11583 / 1000\<bar> < 1 / 1000 \<and> \<bar>w2 - 12038 / 1000\<bar> < 1 / 1000
       \<and> \<bar>f1 + 5791 / 10000\<bar> < 1 / 10000 \<and> \<bar>f2 + 6019 / 10000\<bar> < 1 / 10000
       \<and> \<bar>n1 - 11598 / 1000\<bar> < 1 / 1000 \<and> \<bar>n2 - 12053 / 1000\<bar> < 1 / 1000)"
proof (intro conjI allI impI)
  fix k
  assume k: "k < length d" and nn: "0 \<le> d ! k"
  from k nn show "w_undamped d ! k = Some (sqrt (d ! k))"
    by (rule modal_entries(1))
  from k nn show "dampf z (w_undamped d) ! k = Some (- z * sqrt (d ! k))"
    by (rule modal_entries(2))
  from k nn show "wn (w_undamped d) (dampf z (w_undamped d)) ! k
        = Some (sqrt ((sqrt (d ! k)) ^ 2 + (- z * sqrt (d ! k)) ^ 2))"
    by (rule modal_entries(3))
  from k nn show "roots (dampf z (w_undamped d)) (wn (w_undamped d) (dampf z (w_undamped d))) ! k
        = Some (complex_of_real (- z * sqrt (d ! k))
                + \<i> * complex_of_real (sqrt ((sqrt (d ! k)) ^ 2 + (- z * sqrt (d ! k)) ^ 2)))"
    by (rule modal_entries(4))
next
  show "\<exists>w1 w2 f1 f2 n1 n2.
         w_undamped [1341667 / 10000, 1449 / 10] = [Some w1, Some w2]
       \<and> dampf dampr (w_undamped [1341667 / 10000, 1449 / 10]) = [Some f1, Some f2]
       \<and> wn (w_undamped [1341667 / 10000, 1449 / 10])
            (dampf dampr (w_undamped [1341667 / 10000, 1449 / 10])) = [Some n1, Some n2]
       \<and> \<bar>w1 - 11583 / 1000\<bar> < 1 / 1000 \<and> \<bar>w2 - 12038 / 1000\<bar> < 1 / 1000
       \<and> \<bar>f1 + 5791 / 10000\<bar> < 1 / 10000 \<and> \<bar>f2 + 6019 / 10000\<bar> < 1 / 10000
       \<and> \<bar>n1 - 11598 / 1000\<bar> < 1 / 1000 \<and> \<bar>n2 - 12053 / 1000\<bar> < 1 / 1000"
    unfolding example_lists
    using example_w1 example_w2 example_dampf1 example_dampf2 example_wn1 example_wn2 by blast
qed

theorem modal_damping_witness:
  "(0 :: nat) < length [4 :: real] \<and> (0 :: real) \<le> [4] ! 0
   \<and> w_undamped [4] ! 0 = Some 2
   \<and> dampf (1 / 2) (w_undamped [4]) ! 0 = Some (- 1)
   \<and> wn (w_undamped [4]) (dampf (1 / 2) (w_undamped [4])) ! 0 = Some (sqrt 5)
   \<and> roots (dampf (1 / 2) (w_undamped [4])) (wn (w_undamped [4]) (dampf (1 / 2) (w_undamped [4]))) ! 0
       = Some (- 1 + \<i> * complex_of_real (sqrt 5))"
proof -
  have s4: "sqrt 4 = 2"
    using real_sqrt_abs [of 2] by simp
  have k: "(0 :: nat) < length [4 :: real]" and nn: "(0 :: real) \<le> [4] ! 0"
    by simp_all
  from modal_damping [of "[4]" "1 / 2"]
  have "\<forall>k. k < length [4 :: real] \<longrightarrow> 0 \<le> [4 :: real] ! k \<longrightarrow>
      w_undamped [4] ! k = Some (sqrt ([4] ! k))
    \<and> dampf (1 / 2) (w_undamped [4]) ! k = Some (- (1 / 2) * sqrt ([4] ! k))
    \<and> wn (w_undamped [4]) (dampf (1 / 2) (w_undamped [4])) ! k
        = Some (sqrt ((sqrt ([4] ! k)) ^ 2 + (- (1 / 2) * sqrt ([4] ! k)) ^ 2))
    \<and> roots (dampf (1 / 2) (w_undamped [4])) (wn (w_undamped [4]) (dampf (1 / 2) (w_undamped [4]))) ! k
        = Some (complex_of_real (- (1 / 2) * sqrt ([4] ! k))
                + \<i> * complex_of_real (sqrt ((sqrt ([4] ! k)) ^ 2 + (- (1 / 2) * sqrt ([4] ! k)) ^ 2)))"
    by (rule conjunct1)
  then have "0 < length [4 :: real] \<longrightarrow> 0 \<le> [4 :: real] ! 0 \<longrightarrow>
      w_undamped [4] ! 0 = Some (sqrt ([4] ! 0))
    \<and> dampf (1 / 2) (w_undamped [4]) ! 0 = Some (- (1 / 2) * sqrt ([4] ! 0))
    \<and> wn (w_undamped [4]) (dampf (1 / 2) (w_undamped [4])) ! 0
        = Some (sqrt ((sqrt ([4] ! 0)) ^ 2 + (- (1 / 2) * sqrt ([4] ! 0)) ^ 2))
    \<and> roots (dampf (1 / 2) (w_undamped [4])) (wn (w_undamped [4]) (dampf (1 / 2) (w_undamped [4]))) ! 0
        = Some (complex_of_real (- (1 / 2) * sqrt ([4] ! 0))
                + \<i> * complex_of_real (sqrt ((sqrt ([4] ! 0)) ^ 2 + (- (1 / 2) * sqrt ([4] ! 0)) ^ 2)))"
    by (rule spec)
  with k nn s4 show ?thesis
    by simp
qed

subsection \<open>Superposition of the modes\<close>

lemma sum_of_maps:
  "map (\<lambda>x. foldr (\<lambda>m acc. c_add (t m x) acc) ms (Some 0)) f
     = foldr (\<lambda>m acc. map2 c_add (map (t m) f) acc) ms (replicate (length f) (Some 0))"
proof (induction ms)
  case Nil
  show ?case by (simp add: map_replicate_const)
next
  case (Cons m ms)
  have "map (\<lambda>x. foldr (\<lambda>m acc. c_add (t m x) acc) (m # ms) (Some 0)) f
          = map (\<lambda>x. c_add (t m x) (foldr (\<lambda>m acc. c_add (t m x) acc) ms (Some 0))) f"
    by simp
  also have "\<dots> = map2 c_add (map (t m) f)
                     (map (\<lambda>x. foldr (\<lambda>m acc. c_add (t m x) acc) ms (Some 0)) f)"
    by (simp only: map2_map_map)
  finally show ?case
    by (simp only: Cons.IH foldr.simps comp_def)
qed

text \<open>
  Claim C6. Superposition: the multi-mode FRF of the spec's formula is the entry-by-entry
  sum, over the modes, of the arrays that \<open>frf_build_sdof\<close> returns for the residue entry
  \<open>A[mode][iout][iin]\<close> and the pole of each mode, on the same sweep.
\<close>

theorem frf_superposition:
  "frf_multi_mode A pole f iout iin
     = foldr (\<lambda>mode acc. map2 c_add (frf_build_sdof (A ! mode ! iout ! iin) (pole ! mode) f) acc)
             [0..<length pole] (replicate (length f) (Some 0))"
  unfolding frf_multi_mode_def frf_build_sdof_def
  by (rule sum_of_maps)

subsection \<open>Magnitude in decibels\<close>

text \<open>
  Claim C8, as stated, fails: \<open>mag2db\<close> takes no absolute value, so on the negative input
  \<open>-10\<close> it returns \<open>nan\<close> and not \<open>20\<cdot>log10(|-10|) = 20\<close>.
\<close>

theorem mag2db_negative_counterexample:
  "mag2db [Fin (- 10)] = [NaN] \<and> mag2db [Fin (- 10)] \<noteq> [Fin (20 * log 10 \<bar>- 10\<bar>)]"
  by (simp add: mag2db_def np_log10_def npf_times_def)

text \<open>
  Claim C8, amended. \<open>mag2db\<close> is an entry-by-entry function of its array: on a positive
  entry \<open>x\<close> it is \<open>20\<cdot>log10(x)\<close>, which is \<open>20\<cdot>log10(|x|)\<close> there; on \<open>0\<close> it is \<open>-inf\<close>; on a
  negative entry it is \<open>nan\<close>. The absolute value is the caller's: \<open>mag2db(np.abs(h))\<close> is
  \<open>20\<cdot>log10(|z|)\<close> on every non-zero complex entry \<open>z\<close> of \<open>h\<close> and \<open>-inf\<close> on a zero entry.
\<close>

theorem mag2db_values:
  "mag2db (map Fin xs)
     = map (\<lambda>x. if 0 < x then Fin (20 * log 10 \<bar>x\<bar>) else if x = 0 then NInf else NaN) xs
   \<and> mag2db (np_abs zs)
     = map (\<lambda>z. if z = 0 then NInf else Fin (20 * log 10 (cmod z))) zs"
  by (simp add: mag2db_def np_abs_def np_log10_def npf_times_def)

subsection \<open>Symmetric residues and reciprocity\<close>

lemma A_residues_entry:
  assumes "mode < shape1 v" "i < length v" "j < length v"
  shows "A_residues q v ! mode ! i ! j
           = c_mul (q ! mode) (Some (complex_of_real (v ! i ! mode * v ! j ! mode)))"
  using assms by (simp add: A_residues_def np_outer_def column_def)

text \<open>
  Claim C10. For a rectangular modal matrix \<open>v\<close>, modal masses and frequencies of the
  same number, a mode that \<open>v\<close>, \<open>qr\<close> and \<open>roots\<close> have, and two degrees of freedom \<open>iout\<close>
  and \<open>iin\<close> of \<open>v\<close>, the residue matrix \<open>qr[mode]\<cdot>outer(v[:,mode], v[:,mode])\<close> of the mode is
  symmetric, \<open>A[mode][iout][iin] = A[mode][iin][iout]\<close>, and the response that the plot cell
  builds for \<open>(iout, iin)\<close> is the one it builds for \<open>(iin, iout)\<close>, on every sweep.
\<close>

theorem residues_symmetric:
  assumes "list_all (\<lambda>row. length row = shape1 v) v"
    and "length wns = length (np_diag mr)"
    and "mode < shape1 v" and "mode < length (qr mr wns)" and "mode < length rts"
    and "iout < length v" and "iin < length v"
  shows "A_residues (qr mr wns) v ! mode ! iout ! iin = A_residues (qr mr wns) v ! mode ! iin ! iout
       \<and> frf_h (A_residues (qr mr wns) v) rts freqs mode iout iin
           = frf_h (A_residues (qr mr wns) v) rts freqs mode iin iout"
proof -
  have "A_residues (qr mr wns) v ! mode ! iout ! iin = A_residues (qr mr wns) v ! mode ! iin ! iout"
    using assms by (simp add: A_residues_entry mult.commute)
  then show ?thesis
    by (simp add: frf_h_def)
qed

theorem residues_symmetric_witness:
  "list_all (\<lambda>row. length row = shape1 [[1, 2], [3, 4 :: real]]) [[1, 2], [3, 4]]
   \<and> length [Some 1, Some 2 :: real option] = length (np_diag [[1, 0], [0, 1]])
   \<and> (1 :: nat) < shape1 [[1, 2], [3, 4]]
   \<and> 1 < length (qr [[1, 0], [0, 1]] [Some 1, Some 2])
   \<and> (1 :: nat) < length [Some (- 1 + \<i>), Some (- 1 + 2 * \<i>)]
   \<and> (0 :: nat) < length [[1, 2], [3, 4 :: real]]
   \<and> (1 :: nat) < length [[1, 2], [3, 4 :: real]]
   \<and> A_residues (qr [[1, 0], [0, 1]] [Some 1, Some 2]) [[1, 2], [3, 4]] ! 1 ! 0 ! 1
       = A_residues (qr [[1, 0], [0, 1]] [Some 1, Some 2]) [[1, 2], [3, 4]] ! 1 ! 1 ! 0
   \<and> frf_h (A_residues (qr [[1, 0], [0, 1]] [Some 1, Some 2]) [[1, 2], [3, 4]])
           [Some (- 1 + \<i>), Some (- 1 + 2 * \<i>)] [0, 1] 1 0 1
       = frf_h (A_residues (qr [[1, 0], [0, 1]] [Some 1, Some 2]) [[1, 2], [3, 4]])
           [Some (- 1 + \<i>), Some (- 1 + 2 * \<i>)] [0, 1] 1 1 0"
proof -
  have rect: "list_all (\<lambda>row. length row = shape1 [[1, 2], [3, 4 :: real]]) [[1, 2], [3, 4]]"
    by (simp add: shape1_def)
  have len: "length [Some 1, Some 2 :: real option] = length (np_diag [[1, 0], [0, 1]])"
    by (simp add: np_diag_def shape1_def)
  have m1: "(1 :: nat) < shape1 [[1, 2], [3, 4 :: real]]"
    by (simp add: shape1_def)
  have m2: "1 < length (qr [[1, 0], [0, 1]] [Some 1, Some 2])"
    by (simp add: qr_def np_diag_def shape1_def)
  have m3: "(1 :: nat) < length [Some (- 1 + \<i>), Some (- 1 + 2 * \<i>)]"
    by simp
  have i0: "(0 :: nat) < length [[1, 2], [3, 4 :: real]]"
    and i1: "(1 :: nat) < length [[1, 2], [3, 4 :: real]]"
    by simp_all
  from residues_symmetric [OF rect len m1 m2 m3 i0 i1, of "[0, 1]"] rect len m1 m2 m3 i0 i1
  show ?thesis
    by blast
qed

end
